theory Spec2Isabelle
  imports Main "HOL-Library.Word"
begin

section \<open>The temperature systems controller node\<close>

text \<open>
  A shallow embedding of \<^verbatim>\<open>temperature_systems_controller.cpp\<close>. The class
  \<^verbatim>\<open>TemperatureSystemsControllerNode\<close> becomes a record of its two data members
  together with the bookkeeping that makes its effects visible: how often \<^verbatim>\<open>rand()\<close> and
  \<^verbatim>\<open>is_canceling()\<close> have been called, and the list of effects performed so far.
  Every callback is a function from the state before to the state after.

  The two sources of nondeterminism are parameters of the callbacks that consult them:
  \<^item> \<open>rnd k\<close> is the number returned by the \<open>k\<close>-th call of \<^verbatim>\<open>rand()\<close> (counted from 0).
    The C library returns a non-negative \<^verbatim>\<open>int\<close>, hence the type \<open>nat\<close>, on which
    \<^verbatim>\<open>%\<close> is \<open>mod\<close>;
  \<^item> \<open>cnc k\<close> is the answer of the \<open>k\<close>-th call of \<^verbatim>\<open>goalHandle->is_canceling()\<close>.
\<close>

subsection \<open>Data\<close>

type_synonym short = "16 word"

text \<open>The two response enumerations of \<^verbatim>\<open>rclcpp_action\<close> (both have a member REJECT).\<close>

datatype GoalResponse = REJECT | ACCEPT_AND_EXECUTE | ACCEPT_AND_DEFER

datatype CancelResponse = CANCEL_REJECT | CANCEL_ACCEPT

text \<open>
  The effects a callback has on the outside, in the order they happen:
  \<^item> \<open>StepRequested d\<close>: the step callback was entered with direction \<open>d\<close> (line 107);
  \<^item> \<open>Slept ms\<close>: \<^verbatim>\<open>this_thread::sleep_for(chrono::milliseconds(ms))\<close> (line 118);
  \<^item> \<open>Published t\<close>: the monitor timer published \<open>t\<close> (line 89);
  \<^item> \<open>Feedback t p\<close>: \<^verbatim>\<open>publish_feedback\<close> with temperature \<open>t\<close> and progress \<open>p\<close> (line 185);
  \<^item> \<open>Canceled t\<close>: \<^verbatim>\<open>goalHandle->canceled(result)\<close> with \<open>result->temperature = t\<close> (line 165);
  \<^item> \<open>Succeeded t\<close>: \<^verbatim>\<open>goalHandle->succeed(result)\<close> with \<open>result->temperature = t\<close> (line 192).
  The result message carries the temperature only: the two assignments to a success flag
  and to a message are commented out in the source.
\<close>

datatype event =
    StepRequested bool
  | Slept nat
  | Published short
  | Feedback short int
  | Canceled short
  | Succeeded short

record node =
  current_temperature :: short
  action_server_busy :: bool
  rand_calls :: nat
  cancel_checks :: nat
  events :: "event list"

text \<open>
  Modelled from the spec: the interface files of the package
  \<^verbatim>\<open>temperature_control_systems_interfaces\<close>, which declare the fields of the messages, are
  not among the sources. The external interfaces of the specification give them: the step
  takes a direction (bool) and answers with success (bool), the value (int16) and a message
  (string); the task takes a target (int16), publishes feedback with the value (int16)
  and the progress (int) and ends with a result holding the value (int16). The
  temperature fields are therefore \<open>short\<close> and the progress is an \<open>int\<close>.

  The response of the service \<^verbatim>\<open>IncrementDecrementTemperature\<close>:
\<close>

record step_response =
  success :: bool
  temperature :: short
  message :: string

text \<open>The local variables of \<^verbatim>\<open>accepted_set_temperature_action_callback\<close> (lines 154 to 157).\<close>

record task_locals =
  target_temperature :: short
  initial_temperature :: short
  local_current_temperature :: short
  is_increment :: bool

datatype fault = DivisionByZero

text \<open>
  Where the task is: at the head of its \<^verbatim>\<open>while\<close> loop, returned, or stopped by
  undefined behaviour.
\<close>

datatype config =
    AtLoopHead task_locals node
  | Returned node
  | Faulted fault

subsection \<open>Constructor, monitor and query\<close>

definition TemperatureSystemsControllerNode :: "(nat \<Rightarrow> nat) \<Rightarrow> node" where
  "TemperatureSystemsControllerNode rnd =
     \<lparr>current_temperature = of_nat (rnd 0 mod 85 + 15),
      action_server_busy = False,
      rand_calls = 1,
      cancel_checks = 0,
      events = []\<rparr>"

definition temperature_monitor_callback :: "node \<Rightarrow> node" where
  "temperature_monitor_callback s = s\<lparr>events := events s @ [Published (current_temperature s)]\<rparr>"

definition get_current_temperature_callback :: "node \<Rightarrow> short \<times> node" where
  "get_current_temperature_callback s = (current_temperature s, s)"

subsection \<open>The step operation\<close>

definition refusal_message :: "bool \<Rightarrow> string" where
  "refusal_message inc = ''Temperature cannot be '' @ (if inc then ''increased'' else ''decreased'')"

definition success_message :: "bool \<Rightarrow> string" where
  "success_message inc =
     ''Temperature '' @ (if inc then ''increased'' else ''decreased'') @ '' successfully''"

definition increment_decrement_temperature_callback ::
  "(nat \<Rightarrow> nat) \<Rightarrow> bool \<Rightarrow> node \<Rightarrow> step_response \<times> node" where
  "increment_decrement_temperature_callback rnd inc s =
     (let s1 = s\<lparr>events := events s @ [StepRequested inc]\<rparr>;
          can_increase_temperature = (rnd (rand_calls s1) mod 2 \<noteq> 0);
          s2 = s1\<lparr>rand_calls := rand_calls s1 + 1\<rparr>
      in if \<not> can_increase_temperature then
           (\<lparr>success = False, temperature = current_temperature s2,
             message = refusal_message inc\<rparr>, s2)
         else
           let ms = rnd (rand_calls s2) mod 400 + 100;
               s3 = s2\<lparr>rand_calls := rand_calls s2 + 1, events := events s2 @ [Slept ms]\<rparr>;
               s4 = s3\<lparr>current_temperature :=
                          current_temperature s3 + (if inc then 1 else - 1)\<rparr>
           in (\<lparr>success = True, temperature = current_temperature s4,
                message = success_message inc\<rparr>, s4))"

subsection \<open>The action server\<close>

definition handle_set_temperature_action_callback :: "node \<Rightarrow> GoalResponse \<times> node" where
  "handle_set_temperature_action_callback s =
     (if action_server_busy s then (REJECT, s)
      else (ACCEPT_AND_EXECUTE, s\<lparr>action_server_busy := True\<rparr>))"

definition cancel_set_temperature_action_callback :: "node \<Rightarrow> CancelResponse \<times> node" where
  "cancel_set_temperature_action_callback s = (CANCEL_ACCEPT, s)"

text \<open>
  C++ integer division on \<^verbatim>\<open>int\<close>: the quotient is truncated towards zero, and a zero
  divisor is undefined behaviour (\<open>None\<close>).
\<close>

definition c_div :: "int \<Rightarrow> int \<Rightarrow> int option" where
  "c_div a b =
     (if b = 0 then None
      else if (a < 0) = (b < 0) then Some (\<bar>a\<bar> div \<bar>b\<bar>)
      else Some (- (\<bar>a\<bar> div \<bar>b\<bar>)))"

text \<open>
  Lines 183 and 184. The three \<^verbatim>\<open>short\<close> operands are promoted to \<^verbatim>\<open>int\<close>, where
  neither the differences nor the product by 100 can overflow. The type of the field
  \<^verbatim>\<open>feedback->progress\<close> is declared in an interface file; the quotient is kept as an
  \<open>int\<close>.
\<close>

definition progress :: "short \<Rightarrow> short \<Rightarrow> short \<Rightarrow> int option" where
  "progress cur ini tgt = c_div ((sint cur - sint ini) * 100) (sint tgt - sint ini)"

text \<open>Lines 154 to 157: the locals on entry to the loop.\<close>

definition task_start :: "short \<Rightarrow> node \<Rightarrow> task_locals" where
  "task_start goal_temperature s =
     \<lparr>target_temperature = goal_temperature,
      initial_temperature = current_temperature s,
      local_current_temperature = current_temperature s,
      is_increment = (sint (current_temperature s) < sint goal_temperature)\<rparr>"

text \<open>
  Lines 160 to 186: one execution of the loop body. The request to the step service is
  answered by the step callback of this same node, and \<^verbatim>\<open>future.get()\<close> waits for the
  answer, so the call is a call of the callback.
\<close>

definition loop_body :: "(nat \<Rightarrow> nat) \<Rightarrow> (nat \<Rightarrow> bool) \<Rightarrow> task_locals \<Rightarrow> node \<Rightarrow> config" where
  "loop_body rnd cnc l s =
     (let canceling = cnc (cancel_checks s);
          s0 = s\<lparr>cancel_checks := cancel_checks s + 1\<rparr>
      in if canceling then
           Returned (s0\<lparr>events := events s0 @ [Canceled (local_current_temperature l)],
                        action_server_busy := False\<rparr>)
         else
           let (response, s1) = increment_decrement_temperature_callback rnd (is_increment l) s0;
               l1 = l\<lparr>local_current_temperature := temperature response\<rparr>
           in case progress (local_current_temperature l1) (initial_temperature l1)
                     (target_temperature l1) of
                None \<Rightarrow> Faulted DivisionByZero
              | Some p \<Rightarrow>
                  AtLoopHead l1
                    (s1\<lparr>events := events s1 @ [Feedback (local_current_temperature l1) p]\<rparr>))"

text \<open>Lines 190 to 193: what follows the loop.\<close>

definition after_loop :: "task_locals \<Rightarrow> node \<Rightarrow> node" where
  "after_loop l s =
     s\<lparr>events := events s @ [Succeeded (local_current_temperature l)],
       action_server_busy := False\<rparr>"

text \<open>
  One pass through the \<^verbatim>\<open>while\<close>: the test of line 159, then either the body or the
  code after the loop. A task that has returned or faulted stays where it is.
\<close>

fun loop_iteration :: "(nat \<Rightarrow> nat) \<Rightarrow> (nat \<Rightarrow> bool) \<Rightarrow> config \<Rightarrow> config" where
  "loop_iteration rnd cnc (AtLoopHead l s) =
     (if local_current_temperature l \<noteq> target_temperature l then loop_body rnd cnc l s
      else Returned (after_loop l s))"
| "loop_iteration rnd cnc (Returned s) = Returned s"
| "loop_iteration rnd cnc (Faulted f) = Faulted f"

text \<open>
  The loop has no bound: a step that is refused repeats the same value, and nothing limits
  the refusals. \<open>run_loop n\<close> makes at most \<open>n\<close> passes; a task still at the loop head
  after them has not returned yet.
\<close>

fun run_loop :: "nat \<Rightarrow> (nat \<Rightarrow> nat) \<Rightarrow> (nat \<Rightarrow> bool) \<Rightarrow> config \<Rightarrow> config" where
  "run_loop 0 rnd cnc c = c"
| "run_loop (Suc n) rnd cnc c = run_loop n rnd cnc (loop_iteration rnd cnc c)"

definition task_config :: "short \<Rightarrow> node \<Rightarrow> config" where
  "task_config goal_temperature s = AtLoopHead (task_start goal_temperature s) s"

text \<open>
  The whole callback with fuel \<open>n\<close>: \<open>None\<close> when \<open>n\<close> passes do not bring it to its
  return, otherwise the fault or the state it returns in.
\<close>

definition accepted_set_temperature_action_callback ::
  "nat \<Rightarrow> (nat \<Rightarrow> nat) \<Rightarrow> (nat \<Rightarrow> bool) \<Rightarrow> short \<Rightarrow> node \<Rightarrow> (fault + node) option" where
  "accepted_set_temperature_action_callback n rnd cnc goal_temperature s =
     (case run_loop n rnd cnc (task_config goal_temperature s) of
        AtLoopHead l s' \<Rightarrow> None
      | Returned s' \<Rightarrow> Some (Inr s')
      | Faulted f \<Rightarrow> Some (Inl f))"

subsection \<open>Observing a run\<close>

text \<open>The effects added between an earlier state and a later one.\<close>

definition new_events :: "node \<Rightarrow> node \<Rightarrow> event list" where
  "new_events s s' = drop (length (events s)) (events s')"

text \<open>The feedback messages among some effects, and their progress fields.\<close>

fun feedbacks :: "event list \<Rightarrow> (short \<times> int) list" where
  "feedbacks [] = []"
| "feedbacks (Feedback t p # es) = (t, p) # feedbacks es"
| "feedbacks (e # es) = feedbacks es"

definition feedback_progress :: "event list \<Rightarrow> int list" where
  "feedback_progress es = map snd (feedbacks es)"

text \<open>The effects recorded in the state a callback returned in, if it returned.\<close>

fun returned_events :: "(fault + node) option \<Rightarrow> event list" where
  "returned_events (Some (Inr s)) = events s"
| "returned_events r = []"

subsection \<open>What holds at every point of a task\<close>

text \<open>
  \<open>task_inv goal s0 c\<close> relates a task for \<open>goal\<close>, accepted in the state \<open>s0\<close>, to a
  configuration \<open>c\<close> it has reached. At the loop head the locals are those of lines 154
  to 157, the local copy is the value of the node, the busy flag is as it was, the value
  lies between the initial one and the target on the side the task moves to, and the last
  effect is the feedback for that value unless nothing has happened yet. After the return
  the busy flag is clear and the last effect is the result. No fault is ever reached.
\<close>

definition task_inv :: "short \<Rightarrow> node \<Rightarrow> config \<Rightarrow> bool" where
  "task_inv goal s0 c =
     (case c of
        AtLoopHead l s \<Rightarrow>
          target_temperature l = goal
          \<and> initial_temperature l = current_temperature s0
          \<and> is_increment l = (sint (current_temperature s0) < sint goal)
          \<and> local_current_temperature l = current_temperature s
          \<and> action_server_busy s = action_server_busy s0
          \<and> (if is_increment l
               then sint (current_temperature s0) \<le> sint (current_temperature s)
                    \<and> sint (current_temperature s) \<le> sint goal
               else sint goal \<le> sint (current_temperature s)
                    \<and> sint (current_temperature s) \<le> sint (current_temperature s0))
          \<and> (events s = events s0 \<and> current_temperature s = current_temperature s0
               \<or> (\<exists>p. last (events s) = Feedback (current_temperature s) p))
      | Returned s \<Rightarrow>
          \<not> action_server_busy s
          \<and> events s \<noteq> []
          \<and> (last (events s) = Canceled (current_temperature s)
               \<or> last (events s) = Succeeded (current_temperature s)
                  \<and> current_temperature s = goal)
      | Faulted f \<Rightarrow> False)"

section \<open>Cancellation requests\<close>

text \<open>
  Claim C9. The cancel handler answers ACCEPT for every goal handle and in every state of
  the controller, busy or not, and changes nothing: a cancel request is never rejected.
\<close>

theorem cancel_always_accepted:
  "cancel_set_temperature_action_callback s = (CANCEL_ACCEPT, s)"
  by (simp add: cancel_set_temperature_action_callback_def)

section \<open>Arithmetic of \<^verbatim>\<open>short\<close>\<close>

lemma sint_bounds: "- 32768 \<le> sint (x::short) \<and> sint x \<le> 32767"
  using sint_ge [of x] sint_lt [of x] by simp

lemma wrap_up: "sint (x + 1 :: short) = (sint x + 1 + 32768) mod 65536 - 32768"
  by (simp add: sint_word_add signed_take_bit_eq_take_bit_shift take_bit_eq_mod)

lemma wrap_down: "sint (x - 1 :: short) = (sint x - 1 + 32768) mod 65536 - 32768"
  by (simp add: sint_word_diff signed_take_bit_eq_take_bit_shift take_bit_eq_mod)

lemma sint_succ: "sint (x::short) < 32767 \<Longrightarrow> sint (x + 1) = sint x + 1"
  using sint_bounds [of x] by (simp add: wrap_up)

lemma sint_pred: "- 32768 < sint (x::short) \<Longrightarrow> sint (x - 1) = sint x - 1"
  using sint_bounds [of x] by (simp add: wrap_down)

section \<open>The step operation\<close>

lemma step_refused:
  "even (rnd (rand_calls s)) \<Longrightarrow>
   increment_decrement_temperature_callback rnd inc s =
     (\<lparr>success = False, temperature = current_temperature s, message = refusal_message inc\<rparr>,
      s\<lparr>events := events s @ [StepRequested inc], rand_calls := rand_calls s + 1\<rparr>)"
  by (simp add: increment_decrement_temperature_callback_def Let_def even_iff_mod_2_eq_zero)

lemma step_performed:
  "odd (rnd (rand_calls s)) \<Longrightarrow>
   increment_decrement_temperature_callback rnd inc s =
     (\<lparr>success = True,
       temperature = current_temperature s + (if inc then 1 else - 1),
       message = success_message inc\<rparr>,
      s\<lparr>events := events s @ [StepRequested inc, Slept (rnd (rand_calls s + 1) mod 400 + 100)],
        rand_calls := rand_calls s + 2,
        current_temperature := current_temperature s + (if inc then 1 else - 1)\<rparr>)"
  by (simp add: increment_decrement_temperature_callback_def Let_def even_iff_mod_2_eq_zero)

lemma step_success_iff:
  "success (fst (increment_decrement_temperature_callback rnd inc s)) = odd (rnd (rand_calls s))"
proof (cases "even (rnd (rand_calls s))")
  case True
  then show ?thesis by (simp add: step_refused)
next
  case False
  then show ?thesis by (simp add: step_performed)
qed

text \<open>
  Claim C3, amended. A step request that is not refused sleeps for
  \<^verbatim>\<open>rand() % 400 + 100\<close> milliseconds, a duration from 100 to 499, and only then changes
  the value: by \<open>+1\<close> for an increment and by \<open>-1\<close> for a decrement, in the arithmetic
  of \<^verbatim>\<open>short\<close>, which is the integer successor or predecessor away from the two ends
  of the range. The response has \<open>success = True\<close>, the new value and a message.
\<close>

theorem step_success_path:
  assumes "success (fst (increment_decrement_temperature_callback rnd inc s))"
  shows "\<exists>ms v. increment_decrement_temperature_callback rnd inc s =
           (\<lparr>success = True, temperature = v, message = success_message inc\<rparr>,
            s\<lparr>events := events s @ [StepRequested inc, Slept ms],
              rand_calls := rand_calls s + 2,
              current_temperature := v\<rparr>)
         \<and> ms = rnd (rand_calls s + 1) mod 400 + 100 \<and> 100 \<le> ms \<and> ms \<le> 499
         \<and> v = current_temperature s + (if inc then 1 else - 1)
         \<and> (inc \<and> sint (current_temperature s) < 32767 \<longrightarrow> sint v = sint (current_temperature s) + 1)
         \<and> (\<not> inc \<and> - 32768 < sint (current_temperature s) \<longrightarrow> sint v = sint (current_temperature s) - 1)"
proof -
  from assms have drawn: "odd (rnd (rand_calls s))" by (simp add: step_success_iff)
  have "rnd (rand_calls s + 1) mod 400 < 400" by simp
  then have le: "rnd (rand_calls s + 1) mod 400 + 100 \<le> 499" by arith
  have eq: "increment_decrement_temperature_callback rnd inc s =
     (\<lparr>success = True,
       temperature = current_temperature s + (if inc then 1 else - 1),
       message = success_message inc\<rparr>,
      s\<lparr>events := events s @ [StepRequested inc, Slept (rnd (rand_calls s + 1) mod 400 + 100)],
        rand_calls := rand_calls s + 2,
        current_temperature := current_temperature s + (if inc then 1 else - 1)\<rparr>)"
    using drawn by (rule step_performed)
  show ?thesis
    unfolding eq using le by (auto simp: sint_succ sint_pred)
qed

theorem step_success_path_witness:
  "increment_decrement_temperature_callback (\<lambda>k. if k = 0 then 7 else 1234) True
     \<lparr>current_temperature = 20, action_server_busy = False, rand_calls = 0, cancel_checks = 0, events = []\<rparr>
   = (\<lparr>success = True, temperature = 21, message = ''Temperature increased successfully''\<rparr>,
      \<lparr>current_temperature = 21, action_server_busy = False, rand_calls = 2, cancel_checks = 0,
       events = [StepRequested True, Slept 134]\<rparr>)"
proof -
  let ?rnd = "\<lambda>k::nat. if k = 0 then 7 else (1234::nat)"
  let ?s = "\<lparr>current_temperature = 20, action_server_busy = False, rand_calls = 0, cancel_checks = 0, events = []\<rparr>"
  have ok: "success (fst (increment_decrement_temperature_callback ?rnd True ?s))"
    by (simp add: increment_decrement_temperature_callback_def)
  show ?thesis
    using step_success_path [OF ok] by (simp add: success_message_def)
qed

text \<open>
  The claim C3 as written lets the sleep last up to 500 ms. No step ever sleeps 500 ms.
\<close>

theorem sleep_500_counterexample:
  "\<not> (\<exists>rnd inc s. Slept 500 \<in> set (new_events s (snd (increment_decrement_temperature_callback rnd inc s))))"
proof
  assume "\<exists>rnd inc s. Slept 500 \<in> set (new_events s (snd (increment_decrement_temperature_callback rnd inc s)))"
  then obtain rnd inc s where
    in_new: "Slept 500 \<in> set (new_events s (snd (increment_decrement_temperature_callback rnd inc s)))"
    by blast
  show False
  proof (cases "even (rnd (rand_calls s))")
    case True
    with in_new show False by (simp add: step_refused new_events_def)
  next
    case False
    have "rnd (rand_calls s + 1) mod 400 < 400" by simp
    then have "rnd (rand_calls s + 1) mod 400 \<noteq> 400" by arith
    with in_new False show False by (simp add: step_performed new_events_def)
  qed
qed

lemma even_draws_image: "{r \<in> {0..2 * n + 1}. even r} = (\<lambda>k. 2 * k) ` {0..n}" for n :: nat
proof (intro set_eqI iffI)
  fix r assume "r \<in> {r \<in> {0..2 * n + 1}. even r}"
  then obtain k where "r = 2 * k" and "r \<le> 2 * n + 1" by (auto elim: evenE)
  then have "k \<le> n" by arith
  with \<open>r = 2 * k\<close> show "r \<in> (\<lambda>k. 2 * k) ` {0..n}" by simp
next
  fix r assume "r \<in> (\<lambda>k. 2 * k) ` {0..n}"
  then show "r \<in> {r \<in> {0..2 * n + 1}. even r}" by auto
qed

lemma card_even_draws: "odd m \<Longrightarrow> 2 * card {r \<in> {0..m}. even r} = m + 1" for m :: nat
proof -
  assume "odd m"
  then obtain n where m: "m = 2 * n + 1" by (auto elim: oddE)
  have "card ((\<lambda>k. 2 * k) ` {0..n}) = card {0..n}"
    by (rule card_image) (simp add: inj_on_def)
  then have "card {r \<in> {0..2 * n + 1}. even r} = n + 1"
    by (simp only: even_draws_image) simp
  then show ?thesis unfolding m by simp
qed

text \<open>
  Claim C4. The step is refused exactly when the number drawn by \<^verbatim>\<open>rand() % 2\<close> is
  even. Of the \<open>RAND_MAX + 1\<close> numbers that \<^verbatim>\<open>rand()\<close> can return, exactly half are
  even when \<open>RAND_MAX\<close> is odd (it is \<open>2^31 - 1\<close> in glibc and \<open>2^15 - 1\<close> at least),
  so a uniform draw refuses with probability 1/2. A refusal is an ordinary return: the
  response has \<open>success = False\<close>, the unchanged value and the message
  "Temperature cannot be increased" or "... decreased"; the value is not touched and
  nothing is slept.
\<close>

theorem step_refusal:
  "(\<not> success (fst (increment_decrement_temperature_callback rnd inc s))
      \<longleftrightarrow> even (rnd (rand_calls s)))
   \<and> (odd RAND_MAX \<longrightarrow>
        2 * card {r \<in> {0..RAND_MAX}.
                   \<not> success (fst (increment_decrement_temperature_callback
                                     (rnd(rand_calls s := r)) inc s))}
        = RAND_MAX + 1)
   \<and> (\<not> success (fst (increment_decrement_temperature_callback rnd inc s)) \<longrightarrow>
        increment_decrement_temperature_callback rnd inc s =
          (\<lparr>success = False, temperature = current_temperature s,
            message = refusal_message inc\<rparr>,
           s\<lparr>events := events s @ [StepRequested inc], rand_calls := rand_calls s + 1\<rparr>)
        \<and> current_temperature (snd (increment_decrement_temperature_callback rnd inc s))
            = current_temperature s
        \<and> refusal_message inc = (if inc then ''Temperature cannot be increased''
                                  else ''Temperature cannot be decreased''))"
proof (intro conjI impI)
  show "(\<not> success (fst (increment_decrement_temperature_callback rnd inc s)))
          = even (rnd (rand_calls s))"
    by (simp add: step_success_iff)
next
  assume "odd RAND_MAX"
  from card_even_draws [OF this] show "2 * card {r \<in> {0..RAND_MAX}.
                   \<not> success (fst (increment_decrement_temperature_callback
                                     (rnd(rand_calls s := r)) inc s))} = RAND_MAX + 1"
    by (simp add: step_success_iff)
next
  assume refused: "\<not> success (fst (increment_decrement_temperature_callback rnd inc s))"
  then have drawn: "even (rnd (rand_calls s))" by (simp add: step_success_iff)
  show "increment_decrement_temperature_callback rnd inc s =
          (\<lparr>success = False, temperature = current_temperature s,
            message = refusal_message inc\<rparr>,
           s\<lparr>events := events s @ [StepRequested inc], rand_calls := rand_calls s + 1\<rparr>)"
    using drawn by (rule step_refused)
  then show "current_temperature (snd (increment_decrement_temperature_callback rnd inc s))
            = current_temperature s" by simp
  show "refusal_message inc = (if inc then ''Temperature cannot be increased''
                                  else ''Temperature cannot be decreased'')"
    by (simp add: refusal_message_def)
qed

theorem step_refusal_witness:
  "odd (32767::nat)
   \<and> 2 * card {r \<in> {0..32767}.
                \<not> success (fst (increment_decrement_temperature_callback
                   ((\<lambda>_. 4)(0 := r)) False
                   \<lparr>current_temperature = 20, action_server_busy = False, rand_calls = 0, cancel_checks = 0, events = []\<rparr>))}
       = 32768
   \<and> increment_decrement_temperature_callback (\<lambda>_. 4) False
       \<lparr>current_temperature = 20, action_server_busy = False, rand_calls = 0, cancel_checks = 0, events = []\<rparr>
     = (\<lparr>success = False, temperature = 20, message = ''Temperature cannot be decreased''\<rparr>,
        \<lparr>current_temperature = 20, action_server_busy = False, rand_calls = 1, cancel_checks = 0,
         events = [StepRequested False]\<rparr>)"
proof -
  let ?s = "\<lparr>current_temperature = 20, action_server_busy = False, rand_calls = 0, cancel_checks = 0, events = []\<rparr>"
  have refused: "\<not> success (fst (increment_decrement_temperature_callback (\<lambda>_. 4) False ?s))"
    by (simp add: increment_decrement_temperature_callback_def)
  have o: "odd (32767::nat)" by simp
  from step_refusal [of "\<lambda>_. 4" False ?s 32767] refused o
  show ?thesis by (simp add: refusal_message_def)
qed

text \<open>
  Claim C10. The value is a \<^verbatim>\<open>short\<close>: a step that is not refused adds or subtracts one
  modulo \<open>2^16\<close>; from 32767 an increment gives -32768 and from -32768 a decrement gives
  32767. No value is guarded against: whether the step is refused does not depend on
  the value at all. (The conversion of the \<^verbatim>\<open>int\<close> sum back to \<^verbatim>\<open>short\<close> is modular
  from C++20 on and in every compiler ROS2 supports.)
\<close>

theorem wraps_at_the_ends:
  assumes "success (fst (increment_decrement_temperature_callback rnd inc s))"
  shows "sint (current_temperature (snd (increment_decrement_temperature_callback rnd inc s)))
           = (sint (current_temperature s) + (if inc then 1 else - 1) + 32768) mod 65536 - 32768
         \<and> (inc \<and> sint (current_temperature s) = 32767 \<longrightarrow>
              sint (current_temperature (snd (increment_decrement_temperature_callback rnd inc s)))
                = - 32768)
         \<and> (\<not> inc \<and> sint (current_temperature s) = - 32768 \<longrightarrow>
              sint (current_temperature (snd (increment_decrement_temperature_callback rnd inc s)))
                = 32767)
         \<and> (\<forall>v. success (fst (increment_decrement_temperature_callback rnd inc
                                 (s\<lparr>current_temperature := v\<rparr>))))"
proof -
  from assms have drawn: "odd (rnd (rand_calls s))" by (simp add: step_success_iff)
  have general: "sint (current_temperature (snd (increment_decrement_temperature_callback rnd inc s)))
           = (sint (current_temperature s) + (if inc then 1 else - 1) + 32768) mod 65536 - 32768"
    by (simp add: step_performed [where rnd = rnd and s = s, OF drawn] wrap_up wrap_down)
  have guard: "\<forall>v. success (fst (increment_decrement_temperature_callback rnd inc
                                 (s\<lparr>current_temperature := v\<rparr>)))"
    using drawn by (simp add: step_success_iff)
  have top: "sint (current_temperature (snd (increment_decrement_temperature_callback rnd inc s)))
                = - 32768" if "inc \<and> sint (current_temperature s) = 32767"
    unfolding general using that by simp
  have bottom: "sint (current_temperature (snd (increment_decrement_temperature_callback rnd inc s)))
                = 32767" if "\<not> inc \<and> sint (current_temperature s) = - 32768"
    unfolding general using that by simp
  from general guard top bottom show ?thesis by blast
qed

theorem wraps_at_the_ends_witness:
  "sint (current_temperature (snd (increment_decrement_temperature_callback (\<lambda>_. 1) True
      \<lparr>current_temperature = 32767, action_server_busy = False, rand_calls = 0, cancel_checks = 0, events = []\<rparr>)))
   = - 32768
   \<and> sint (current_temperature (snd (increment_decrement_temperature_callback (\<lambda>_. 1) False
      \<lparr>current_temperature = - 32768, action_server_busy = False, rand_calls = 0, cancel_checks = 0, events = []\<rparr>)))
   = 32767"
proof -
  let ?hi = "\<lparr>current_temperature = 32767, action_server_busy = False, rand_calls = 0, cancel_checks = 0, events = []\<rparr>"
  let ?lo = "\<lparr>current_temperature = - 32768, action_server_busy = False, rand_calls = 0, cancel_checks = 0, events = []\<rparr>"
  have up: "success (fst (increment_decrement_temperature_callback (\<lambda>_. 1) True ?hi))"
    by (simp add: increment_decrement_temperature_callback_def)
  have down: "success (fst (increment_decrement_temperature_callback (\<lambda>_. 1) False ?lo))"
    by (simp add: increment_decrement_temperature_callback_def)
  from wraps_at_the_ends [OF up] wraps_at_the_ends [OF down] show ?thesis by simp
qed

section \<open>The value: where it comes from and what changes it\<close>

lemma sint_small_nat: "n < 32768 \<Longrightarrow> sint (of_nat n :: short) = int n"
  by (simp add: signed_of_nat signed_take_bit_int_eq_self)

lemma initial_value:
  "sint (current_temperature (TemperatureSystemsControllerNode rnd)) = int (rnd 0 mod 85 + 15)"
proof -
  have "rnd 0 mod 85 < 85" by simp
  then have "rnd 0 mod 85 + 15 < 32768" by arith
  then show ?thesis
    unfolding TemperatureSystemsControllerNode_def by (simp only: node.simps sint_small_nat)
qed

lemma initial_values:
  "(\<lambda>rnd. sint (current_temperature (TemperatureSystemsControllerNode rnd))) ` UNIV = {15..99}"
proof (intro set_eqI iffI)
  fix v
  assume "v \<in> (\<lambda>rnd. sint (current_temperature (TemperatureSystemsControllerNode rnd))) ` UNIV"
  then obtain rnd where v: "v = int (rnd 0 mod 85 + 15)" by (auto simp: initial_value)
  have "rnd 0 mod 85 < 85" by simp
  with v show "v \<in> {15..99}" by simp
next
  fix v :: int
  assume "v \<in> {15..99}"
  then have "nat v - 15 < 85" and "15 \<le> nat v" and "0 \<le> v" by auto
  then have "v = sint (current_temperature (TemperatureSystemsControllerNode (\<lambda>_. nat v - 15)))"
    by (simp add: initial_value)
  then show "v \<in> (\<lambda>rnd. sint (current_temperature (TemperatureSystemsControllerNode rnd))) ` UNIV"
    by blast
qed

lemma loop_body_canceling:
  "cnc (cancel_checks s) \<Longrightarrow>
   loop_body rnd cnc l s =
     Returned (s\<lparr>cancel_checks := cancel_checks s + 1,
                 events := events s @ [Canceled (local_current_temperature l)],
                 action_server_busy := False\<rparr>)"
  by (simp add: loop_body_def)

lemma loop_body_stepping:
  assumes "\<not> cnc (cancel_checks s)"
    and "increment_decrement_temperature_callback rnd (is_increment l)
           (s\<lparr>cancel_checks := cancel_checks s + 1\<rparr>) = (response, s1)"
  shows "loop_body rnd cnc l s =
     (case progress (temperature response) (initial_temperature l) (target_temperature l) of
        None \<Rightarrow> Faulted DivisionByZero
      | Some p \<Rightarrow>
          AtLoopHead (l\<lparr>local_current_temperature := temperature response\<rparr>)
            (s1\<lparr>events := events s1 @ [Feedback (temperature response) p]\<rparr>))"
  using assms by (simp add: loop_body_def Let_def split: option.splits)

text \<open>
  Claim C8, amended. The constructor sets the value to \<^verbatim>\<open>rand() % 85 + 15\<close>: every
  integer from 15 to 99 can result and no other. After that only the step callback
  assigns to it: the monitor, the query, the goal handler and the cancel handler leave it
  alone, a pass of the task's loop that returns leaves it alone, and a pass that goes on
  leaves the value that its one call of the step callback produced.
\<close>

theorem value_initialised_then_stepped:
  "(\<lambda>rnd. sint (current_temperature (TemperatureSystemsControllerNode rnd))) ` UNIV = {15..99}
   \<and> sint (current_temperature (TemperatureSystemsControllerNode rnd)) = int (rnd 0 mod 85 + 15)
   \<and> current_temperature (temperature_monitor_callback s) = current_temperature s
   \<and> current_temperature (snd (get_current_temperature_callback s)) = current_temperature s
   \<and> current_temperature (snd (handle_set_temperature_action_callback s)) = current_temperature s
   \<and> current_temperature (snd (cancel_set_temperature_action_callback s)) = current_temperature s
   \<and> (loop_iteration rnd cnc (AtLoopHead l s) = Returned s' \<longrightarrow>
        current_temperature s' = current_temperature s)
   \<and> (loop_iteration rnd cnc (AtLoopHead l s) = AtLoopHead l' s' \<longrightarrow>
        current_temperature s' =
          current_temperature (snd (increment_decrement_temperature_callback rnd (is_increment l)
                                      (s\<lparr>cancel_checks := cancel_checks s + 1\<rparr>))))"
proof (intro conjI impI)
  show "(\<lambda>rnd. sint (current_temperature (TemperatureSystemsControllerNode rnd))) ` UNIV = {15..99}"
    by (rule initial_values)
  show "sint (current_temperature (TemperatureSystemsControllerNode rnd)) = int (rnd 0 mod 85 + 15)"
    by (rule initial_value)
  show "current_temperature (temperature_monitor_callback s) = current_temperature s"
    by (simp add: temperature_monitor_callback_def)
  show "current_temperature (snd (get_current_temperature_callback s)) = current_temperature s"
    by (simp add: get_current_temperature_callback_def)
  show "current_temperature (snd (handle_set_temperature_action_callback s)) = current_temperature s"
    by (simp add: handle_set_temperature_action_callback_def)
  show "current_temperature (snd (cancel_set_temperature_action_callback s)) = current_temperature s"
    by (simp add: cancel_set_temperature_action_callback_def)
next
  assume ret: "loop_iteration rnd cnc (AtLoopHead l s) = Returned s'"
  show "current_temperature s' = current_temperature s"
  proof (cases "local_current_temperature l = target_temperature l")
    case True
    with ret show ?thesis by (auto simp: after_loop_def)
  next
    case False
    obtain response s1 where step:
      "increment_decrement_temperature_callback rnd (is_increment l)
           (s\<lparr>cancel_checks := cancel_checks s + 1\<rparr>) = (response, s1)"
      by (cases "increment_decrement_temperature_callback rnd (is_increment l)
           (s\<lparr>cancel_checks := cancel_checks s + 1\<rparr>)")
    show ?thesis
    proof (cases "cnc (cancel_checks s)")
      case True
      with ret False show ?thesis by (auto simp: loop_body_canceling)
    next
      case nc: False
      with ret False show ?thesis
        by (auto simp: loop_body_stepping [where cnc = cnc and s = s, OF nc step] split: option.splits)
    qed
  qed
next
  assume nxt: "loop_iteration rnd cnc (AtLoopHead l s) = AtLoopHead l' s'"
  then have ne: "local_current_temperature l \<noteq> target_temperature l"
    by (auto split: if_splits)
  obtain response s1 where step:
      "increment_decrement_temperature_callback rnd (is_increment l)
           (s\<lparr>cancel_checks := cancel_checks s + 1\<rparr>) = (response, s1)"
      by (cases "increment_decrement_temperature_callback rnd (is_increment l)
           (s\<lparr>cancel_checks := cancel_checks s + 1\<rparr>)")
  from nxt ne have nc: "\<not> cnc (cancel_checks s)"
    by (auto simp: loop_body_canceling)
  from step have s1: "current_temperature s1 =
          current_temperature (snd (increment_decrement_temperature_callback rnd (is_increment l)
                                      (s\<lparr>cancel_checks := cancel_checks s + 1\<rparr>)))"
    by simp
  from nxt ne show "current_temperature s' =
          current_temperature (snd (increment_decrement_temperature_callback rnd (is_increment l)
                                      (s\<lparr>cancel_checks := cancel_checks s + 1\<rparr>)))"
    by (auto simp: loop_body_stepping [where cnc = cnc and s = s, OF nc step] s1
             split: option.splits)
qed

theorem value_initialised_then_stepped_witness:
  "loop_iteration (\<lambda>_. 1) (\<lambda>_. False)
      (AtLoopHead \<lparr>target_temperature = 22, initial_temperature = 20,
                   local_current_temperature = 20, is_increment = True\<rparr>
         \<lparr>current_temperature = 20, action_server_busy = True, rand_calls = 1,
          cancel_checks = 0, events = []\<rparr>)
    = AtLoopHead \<lparr>target_temperature = 22, initial_temperature = 20,
                   local_current_temperature = 21, is_increment = True\<rparr>
         \<lparr>current_temperature = 21, action_server_busy = True, rand_calls = 3,
          cancel_checks = 1, events = [StepRequested True, Slept 101, Feedback 21 50]\<rparr>
   \<and> loop_iteration (\<lambda>_. 84) (\<lambda>_. True)
      (AtLoopHead \<lparr>target_temperature = 22, initial_temperature = 20,
                   local_current_temperature = 20, is_increment = True\<rparr>
         \<lparr>current_temperature = 20, action_server_busy = True, rand_calls = 1,
          cancel_checks = 0, events = []\<rparr>)
    = Returned \<lparr>current_temperature = 20, action_server_busy = False, rand_calls = 1,
          cancel_checks = 1, events = [Canceled 20]\<rparr>
   \<and> current_temperature (snd (increment_decrement_temperature_callback (\<lambda>_. 1) True
         \<lparr>current_temperature = 20, action_server_busy = True, rand_calls = 1,
          cancel_checks = 1, events = []\<rparr>)) = 21
   \<and> sint (current_temperature (TemperatureSystemsControllerNode (\<lambda>_. 84))) = 99"
proof -
  let ?l = "\<lparr>target_temperature = 22, initial_temperature = 20,
            local_current_temperature = 20, is_increment = True\<rparr>"
  let ?s = "\<lparr>current_temperature = 20, action_server_busy = True, rand_calls = 1,
            cancel_checks = 0, events = []\<rparr>"
  let ?l' = "\<lparr>target_temperature = 22, initial_temperature = 20,
             local_current_temperature = 21, is_increment = True\<rparr>"
  let ?s' = "\<lparr>current_temperature = 21, action_server_busy = True, rand_calls = 3,
             cancel_checks = 1, events = [StepRequested True, Slept 101, Feedback 21 50]\<rparr>"
  let ?r = "\<lparr>current_temperature = 20, action_server_busy = False, rand_calls = 1,
            cancel_checks = 1, events = [Canceled 20]\<rparr>"
  have goes_on: "loop_iteration (\<lambda>_. 1) (\<lambda>_. False) (AtLoopHead ?l ?s) = AtLoopHead ?l' ?s'"
    by (simp add: loop_body_def increment_decrement_temperature_callback_def progress_def
        c_div_def)
  have returns: "loop_iteration (\<lambda>_. 84) (\<lambda>_. True) (AtLoopHead ?l ?s) = Returned ?r"
    by (simp add: loop_body_def)
  from value_initialised_then_stepped
         [where rnd = "\<lambda>_. 1" and cnc = "\<lambda>_. False" and s = ?s and l = ?l and s' = ?s' and l' = ?l'] goes_on
    value_initialised_then_stepped
         [where rnd = "\<lambda>_. 84" and cnc = "\<lambda>_. True" and s = ?s and l = ?l and s' = ?r] returns
  show ?thesis by simp
qed

text \<open>
  The claim C8 as written has the initial value range over 15 to 100. No draw makes the
  constructor produce 100.
\<close>

theorem initial_100_counterexample:
  "\<not> (\<exists>rnd. current_temperature (TemperatureSystemsControllerNode rnd) = 100)"
proof
  assume "\<exists>rnd. current_temperature (TemperatureSystemsControllerNode rnd) = 100"
  then obtain rnd where "current_temperature (TemperatureSystemsControllerNode rnd) = 100"
    by auto
  then have "sint (current_temperature (TemperatureSystemsControllerNode rnd)) = 100"
    by simp
  then have "int (rnd 0 mod 85 + 15) = 100" by (simp only: initial_value)
  moreover have "rnd 0 mod 85 < 85" by simp
  ultimately show False by simp
qed

section \<open>The task: invariant of the loop\<close>

lemma sint_eq_iff: "sint (x::short) = sint y \<longleftrightarrow> x = y"
  using word_eq_iff_signed [of x y, where ?'a = int] by auto

lemma progress_defined:
  "tgt \<noteq> ini \<Longrightarrow> \<exists>p. progress cur ini tgt = Some p"
  by (simp add: progress_def c_div_def sint_eq_iff)

lemma run_loop_Suc_right:
  "run_loop (Suc n) rnd cnc c = loop_iteration rnd cnc (run_loop n rnd cnc c)"
  by (induction n arbitrary: c) simp_all

lemma run_loop_add:
  "run_loop (m + k) rnd cnc c = run_loop k rnd cnc (run_loop m rnd cnc c)"
  by (induction m arbitrary: c) simp_all

lemma run_loop_Returned: "run_loop n rnd cnc (Returned s) = Returned s"
  by (induction n) simp_all

lemma loop_body_refused:
  assumes nc: "\<not> cnc (cancel_checks s)"
    and drawn: "even (rnd (rand_calls s))"
    and p: "progress (current_temperature s) (initial_temperature l) (target_temperature l) = Some p"
  shows "loop_body rnd cnc l s =
           AtLoopHead (l\<lparr>local_current_temperature := current_temperature s\<rparr>)
             (s\<lparr>cancel_checks := cancel_checks s + 1,
                events := events s @ [StepRequested (is_increment l),
                                      Feedback (current_temperature s) p],
                rand_calls := rand_calls s + 1\<rparr>)"
proof -
  let ?s0 = "s\<lparr>cancel_checks := cancel_checks s + 1\<rparr>"
  from drawn have step: "increment_decrement_temperature_callback rnd (is_increment l) ?s0 =
       (\<lparr>success = False, temperature = current_temperature s,
         message = refusal_message (is_increment l)\<rparr>,
        ?s0\<lparr>events := events ?s0 @ [StepRequested (is_increment l)],
            rand_calls := rand_calls ?s0 + 1\<rparr>)"
    using step_refused [of rnd ?s0 "is_increment l"] by simp
  show ?thesis
    by (simp add: loop_body_stepping [where cnc = cnc and s = s, OF nc step] p)
qed

lemma loop_body_performed:
  assumes nc: "\<not> cnc (cancel_checks s)"
    and drawn: "odd (rnd (rand_calls s))"
    and v: "v = current_temperature s + (if is_increment l then 1 else - 1)"
    and p: "progress v (initial_temperature l) (target_temperature l) = Some p"
  shows "loop_body rnd cnc l s =
           AtLoopHead (l\<lparr>local_current_temperature := v\<rparr>)
             (s\<lparr>cancel_checks := cancel_checks s + 1,
                events := events s @ [StepRequested (is_increment l),
                                      Slept (rnd (rand_calls s + 1) mod 400 + 100),
                                      Feedback v p],
                rand_calls := rand_calls s + 2,
                current_temperature := v\<rparr>)"
proof -
  let ?s0 = "s\<lparr>cancel_checks := cancel_checks s + 1\<rparr>"
  from drawn have step: "increment_decrement_temperature_callback rnd (is_increment l) ?s0 =
       (\<lparr>success = True, temperature = v, message = success_message (is_increment l)\<rparr>,
        ?s0\<lparr>events := events ?s0 @ [StepRequested (is_increment l),
                                      Slept (rnd (rand_calls ?s0 + 1) mod 400 + 100)],
            rand_calls := rand_calls ?s0 + 2,
            current_temperature := v\<rparr>)"
    using step_performed [of rnd ?s0 "is_increment l"] v by simp
  show ?thesis
    by (simp add: loop_body_stepping [where cnc = cnc and s = s, OF nc step] p)
qed

lemma task_inv_start: "task_inv goal s0 (task_config goal s0)"
  by (simp add: task_inv_def task_config_def task_start_def)

lemma task_inv_differ:
  assumes "task_inv goal s0 (AtLoopHead l s)"
    and "local_current_temperature l \<noteq> target_temperature l"
  shows "target_temperature l \<noteq> initial_temperature l"
  using assms by (auto simp: task_inv_def sint_eq_iff split: if_splits)

lemma task_inv_moved:
  assumes inv: "task_inv goal s0 (AtLoopHead l s)"
    and ne: "local_current_temperature l \<noteq> target_temperature l"
  shows "sint (current_temperature s + (if is_increment l then 1 else - 1))
           = sint (current_temperature s) + (if is_increment l then 1 else - 1)"
proof -
  from inv ne have cur: "sint (current_temperature s) \<noteq> sint goal"
    by (simp add: task_inv_def sint_eq_iff)
  show ?thesis
  proof (cases "is_increment l")
    case True
    with inv cur have "sint (current_temperature s) < sint goal" by (simp add: task_inv_def)
    with sint_bounds [of goal] have "sint (current_temperature s) < 32767" by arith
    with True show ?thesis by (simp add: sint_succ)
  next
    case False
    with inv cur have "sint goal < sint (current_temperature s)" by (simp add: task_inv_def)
    with sint_bounds [of goal] have "- 32768 < sint (current_temperature s)" by arith
    with False show ?thesis by (simp add: sint_pred)
  qed
qed

lemma task_inv_body:
  assumes inv: "task_inv goal s0 (AtLoopHead l s)"
    and ne: "local_current_temperature l \<noteq> target_temperature l"
  shows "task_inv goal s0 (loop_body rnd cnc l s)"
proof (cases "cnc (cancel_checks s)")
  case True
  with inv show ?thesis
    by (simp add: loop_body_canceling task_inv_def)
next
  case nc: False
  note differ = task_inv_differ [OF inv ne]
  show ?thesis
  proof (cases "even (rnd (rand_calls s))")
    case True
    obtain p where p: "progress (current_temperature s) (initial_temperature l) (target_temperature l) = Some p"
      using progress_defined [OF differ] by blast
    from inv show ?thesis
      unfolding loop_body_refused [where cnc = cnc and rnd = rnd and s = s, OF nc True p] by (simp add: task_inv_def)
  next
    case False
    let ?v = "current_temperature s + (if is_increment l then 1 else - 1)"
    obtain p where p: "progress ?v (initial_temperature l) (target_temperature l) = Some p"
      using progress_defined [OF differ] by blast
    from inv ne have cur: "sint (current_temperature s) \<noteq> sint goal"
      by (simp add: task_inv_def sint_eq_iff)
    note moved = task_inv_moved [OF inv ne]
    from inv cur moved show ?thesis
      unfolding loop_body_performed [where cnc = cnc and rnd = rnd and s = s, OF nc False refl p]
      by (auto simp: task_inv_def split: if_splits)
  qed
qed

lemma task_inv_iteration:
  "task_inv goal s0 c \<Longrightarrow> task_inv goal s0 (loop_iteration rnd cnc c)"
proof (cases c)
  case (AtLoopHead l s)
  assume inv: "task_inv goal s0 c"
  show ?thesis
  proof (cases "local_current_temperature l = target_temperature l")
    case True
    with inv AtLoopHead show ?thesis
      by (auto simp: task_inv_def after_loop_def)
  next
    case False
    with inv AtLoopHead show ?thesis by (simp add: task_inv_body)
  qed
qed simp_all

lemma task_inv_run: "task_inv goal s0 (run_loop n rnd cnc (task_config goal s0))"
proof (induction n)
  case 0
  show ?case by (simp add: task_inv_start)
next
  case (Suc n)
  then show ?case by (simp only: run_loop_Suc_right task_inv_iteration)
qed

lemma iteration_moves:
  assumes inv: "task_inv goal s0 (AtLoopHead l s)"
    and nxt: "loop_iteration rnd cnc (AtLoopHead l s) = AtLoopHead l' s'"
  shows "sint (local_current_temperature l') = sint (local_current_temperature l)
         \<or> sint (local_current_temperature l')
             = sint (local_current_temperature l) + (if is_increment l then 1 else - 1)"
proof -
  from nxt have ne: "local_current_temperature l \<noteq> target_temperature l"
    by (auto split: if_splits)
  with nxt have body: "loop_body rnd cnc l s = AtLoopHead l' s'" by simp
  then have nc: "\<not> cnc (cancel_checks s)" by (auto simp: loop_body_canceling)
  note differ = task_inv_differ [OF inv ne]
  from inv have cur: "local_current_temperature l = current_temperature s"
    by (simp add: task_inv_def)
  show ?thesis
  proof (cases "even (rnd (rand_calls s))")
    case True
    obtain p where p: "progress (current_temperature s) (initial_temperature l) (target_temperature l) = Some p"
      using progress_defined [OF differ] by blast
    from body cur show ?thesis
      unfolding loop_body_refused [where cnc = cnc and rnd = rnd and s = s, OF nc True p] by auto
  next
    case False
    let ?v = "current_temperature s + (if is_increment l then 1 else - 1)"
    obtain p where p: "progress ?v (initial_temperature l) (target_temperature l) = Some p"
      using progress_defined [OF differ] by blast
    from body have "local_current_temperature l' = ?v"
      unfolding loop_body_performed [where cnc = cnc and rnd = rnd and s = s, OF nc False refl p] by auto
    with task_inv_moved [OF inv ne] cur show ?thesis by simp
  qed
qed

lemma accepted_Some:
  "accepted_set_temperature_action_callback n rnd cnc goal s = Some r \<longleftrightarrow>
     (\<exists>s'. run_loop n rnd cnc (task_config goal s) = Returned s' \<and> r = Inr s')"
  using task_inv_run [of goal s n rnd cnc]
  by (auto simp: accepted_set_temperature_action_callback_def task_inv_def split: config.splits)

section \<open>The task: claims\<close>

text \<open>
  Claim C1. The goal handler rejects a request when the busy flag is set and changes
  nothing; when the flag is clear it accepts and sets it. At every loop head a running
  task reaches, the flag is still set, so a request arriving there is rejected; the step
  callback, the only other code the task runs, leaves the flag alone. Whenever the
  callback returns, the flag is clear and the last thing it did was to report the task
  canceled or succeeded: the flag is cleared at those two places only.
\<close>

theorem single_flight:
  "(action_server_busy s \<longrightarrow> handle_set_temperature_action_callback s = (REJECT, s))
   \<and> (\<not> action_server_busy s \<longrightarrow>
        handle_set_temperature_action_callback s
          = (ACCEPT_AND_EXECUTE, s\<lparr>action_server_busy := True\<rparr>))
   \<and> (action_server_busy s \<and> run_loop n rnd cnc (task_config goal s) = AtLoopHead l' s' \<longrightarrow>
        action_server_busy s' \<and> handle_set_temperature_action_callback s' = (REJECT, s'))
   \<and> action_server_busy (snd (increment_decrement_temperature_callback rnd inc s))
       = action_server_busy s
   \<and> (accepted_set_temperature_action_callback n rnd cnc goal s = Some r \<longrightarrow>
        (\<exists>s'. r = Inr s' \<and> \<not> action_server_busy s'
              \<and> (last (events s') = Canceled (current_temperature s')
                   \<or> last (events s') = Succeeded (current_temperature s'))))"
proof (intro conjI impI)
  assume "action_server_busy s"
  then show "handle_set_temperature_action_callback s = (REJECT, s)"
    by (simp add: handle_set_temperature_action_callback_def)
next
  assume "\<not> action_server_busy s"
  then show "handle_set_temperature_action_callback s
          = (ACCEPT_AND_EXECUTE, s\<lparr>action_server_busy := True\<rparr>)"
    by (simp add: handle_set_temperature_action_callback_def)
next
  assume active: "action_server_busy s \<and> run_loop n rnd cnc (task_config goal s) = AtLoopHead l' s'"
  with task_inv_run [of goal s n rnd cnc] show "action_server_busy s'"
    by (simp add: task_inv_def)
  then show "handle_set_temperature_action_callback s' = (REJECT, s')"
    by (simp add: handle_set_temperature_action_callback_def)
next
  show "action_server_busy (snd (increment_decrement_temperature_callback rnd inc s))
       = action_server_busy s"
    by (cases "even (rnd (rand_calls s))") (simp_all add: step_refused step_performed)
next
  assume "accepted_set_temperature_action_callback n rnd cnc goal s = Some r"
  then obtain s' where ret: "run_loop n rnd cnc (task_config goal s) = Returned s'" and r: "r = Inr s'"
    by (auto simp: accepted_Some)
  from task_inv_run [of goal s n rnd cnc] ret r
  show "\<exists>s'. r = Inr s' \<and> \<not> action_server_busy s'
              \<and> (last (events s') = Canceled (current_temperature s')
                   \<or> last (events s') = Succeeded (current_temperature s'))"
    by (auto simp: task_inv_def)
qed

theorem single_flight_witness:
  "handle_set_temperature_action_callback
     \<lparr>current_temperature = 20, action_server_busy = False, rand_calls = 1, cancel_checks = 0,
      events = []\<rparr>
   = (ACCEPT_AND_EXECUTE,
      \<lparr>current_temperature = 20, action_server_busy = True, rand_calls = 1, cancel_checks = 0,
       events = []\<rparr>)
   \<and> handle_set_temperature_action_callback
     \<lparr>current_temperature = 20, action_server_busy = True, rand_calls = 1, cancel_checks = 0,
      events = []\<rparr>
   = (REJECT,
      \<lparr>current_temperature = 20, action_server_busy = True, rand_calls = 1, cancel_checks = 0,
       events = []\<rparr>)
   \<and> handle_set_temperature_action_callback
     \<lparr>current_temperature = 21, action_server_busy = True, rand_calls = 3, cancel_checks = 1,
      events = [StepRequested True, Slept 101, Feedback 21 50]\<rparr>
   = (REJECT,
      \<lparr>current_temperature = 21, action_server_busy = True, rand_calls = 3, cancel_checks = 1,
       events = [StepRequested True, Slept 101, Feedback 21 50]\<rparr>)
   \<and> accepted_set_temperature_action_callback 2 (\<lambda>_. 1) (\<lambda>_. False) 21
       \<lparr>current_temperature = 20, action_server_busy = True, rand_calls = 1, cancel_checks = 0,
        events = []\<rparr>
     = Some (Inr \<lparr>current_temperature = 21, action_server_busy = False, rand_calls = 3,
                  cancel_checks = 1,
                  events = [StepRequested True, Slept 101, Feedback 21 100, Succeeded 21]\<rparr>)"
proof -
  let ?idle = "\<lparr>current_temperature = 20, action_server_busy = False, rand_calls = 1,
               cancel_checks = 0, events = []\<rparr>"
  let ?busy = "\<lparr>current_temperature = 20, action_server_busy = True, rand_calls = 1,
               cancel_checks = 0, events = []\<rparr>"
  let ?l = "\<lparr>target_temperature = 22, initial_temperature = 20,
            local_current_temperature = 21, is_increment = True\<rparr>"
  let ?mid = "\<lparr>current_temperature = 21, action_server_busy = True, rand_calls = 3,
              cancel_checks = 1, events = [StepRequested True, Slept 101, Feedback 21 50]\<rparr>"
  let ?final = "\<lparr>current_temperature = 21, action_server_busy = False, rand_calls = 3,
                cancel_checks = 1,
                events = [StepRequested True, Slept 101, Feedback 21 100, Succeeded 21]\<rparr>"
  have idle: "\<not> action_server_busy ?idle" and busy: "action_server_busy ?busy"
    by simp_all
  have mid: "run_loop 1 (\<lambda>_. 1) (\<lambda>_. False) (task_config 22 ?busy) = AtLoopHead ?l ?mid"
    by (simp add: task_config_def task_start_def loop_body_def
        increment_decrement_temperature_callback_def progress_def c_div_def)
  have final: "accepted_set_temperature_action_callback 2 (\<lambda>_. 1) (\<lambda>_. False) 21 ?busy
                = Some (Inr ?final)"
    by (simp add: accepted_set_temperature_action_callback_def numeral_2_eq_2
        task_config_def task_start_def loop_body_def after_loop_def
        increment_decrement_temperature_callback_def progress_def c_div_def)
  from single_flight [where s = ?idle] idle
    single_flight [where s = ?busy and n = 1 and rnd = "\<lambda>_. 1" and cnc = "\<lambda>_. False"
      and goal = 22 and l' = ?l and s' = ?mid] busy mid
    single_flight [where s = ?busy and n = 2 and rnd = "\<lambda>_. 1" and cnc = "\<lambda>_. False"
      and goal = 21 and r = "Inr ?final"] final
  show ?thesis by simp
qed

text \<open>
  Claim C2, amended. A task whose target is the value at its start returns at the first
  test of the loop condition: it reports success with that value, clears the busy flag
  and does nothing else, so it calls no step, draws no number, publishes no feedback and
  computes no progress. No task, whatever its target, ever divides by zero.
\<close>

theorem degenerate_target:
  "(goal = current_temperature s \<longrightarrow>
      accepted_set_temperature_action_callback (Suc n) rnd cnc goal s
        = Some (Inr (s\<lparr>events := events s @ [Succeeded goal], action_server_busy := False\<rparr>)))
   \<and> accepted_set_temperature_action_callback n rnd cnc goal s \<noteq> Some (Inl DivisionByZero)"
proof (intro conjI impI)
  assume "goal = current_temperature s"
  then have "run_loop (Suc n) rnd cnc (task_config goal s)
     = Returned (s\<lparr>events := events s @ [Succeeded goal], action_server_busy := False\<rparr>)"
    by (simp add: task_config_def task_start_def after_loop_def run_loop_Returned)
  then show "accepted_set_temperature_action_callback (Suc n) rnd cnc goal s
        = Some (Inr (s\<lparr>events := events s @ [Succeeded goal], action_server_busy := False\<rparr>))"
    by (simp add: accepted_set_temperature_action_callback_def)
next
  show "accepted_set_temperature_action_callback n rnd cnc goal s \<noteq> Some (Inl DivisionByZero)"
    by (auto simp: accepted_Some)
qed

theorem degenerate_target_witness:
  "accepted_set_temperature_action_callback 1 (\<lambda>_. 1) (\<lambda>_. False) 20
     \<lparr>current_temperature = 20, action_server_busy = True, rand_calls = 1, cancel_checks = 0,
      events = []\<rparr>
   = Some (Inr \<lparr>current_temperature = 20, action_server_busy = False, rand_calls = 1,
                cancel_checks = 0, events = [Succeeded 20]\<rparr>)"
  using degenerate_target [of 20 "\<lparr>current_temperature = 20, action_server_busy = True,
      rand_calls = 1, cancel_checks = 0, events = []\<rparr>" 0 "\<lambda>_. 1" "\<lambda>_. False"]
  by simp

text \<open>
  The claim C2 as written has such a task complete with progress 100. The task started
  at 20 with target 20 reports no progress at all.
\<close>

theorem progress_100_counterexample:
  "100 \<notin> set (feedback_progress (returned_events
      (accepted_set_temperature_action_callback 1 (\<lambda>_. 1) (\<lambda>_. False) 20
         \<lparr>current_temperature = 20, action_server_busy = True, rand_calls = 1, cancel_checks = 0,
          events = []\<rparr>)))"
  by (simp add: accepted_set_temperature_action_callback_def task_config_def task_start_def
      after_loop_def feedback_progress_def)

text \<open>
  Claim C5. When the task is at a loop head with the target not reached and
  \<^verbatim>\<open>is_canceling()\<close> answers true, it calls no further step: it reports the task
  canceled with the current value as the only field of the result, clears the busy flag
  and returns, however much fuel is left. The value reported is the value of the node,
  which is the initial value if no step was made and otherwise the value of the last
  feedback, that is of the last step response.
\<close>

theorem cancellation:
  assumes active: "run_loop n rnd cnc (task_config goal s0) = AtLoopHead l s"
    and ne: "local_current_temperature l \<noteq> target_temperature l"
    and observed: "cnc (cancel_checks s)"
  shows "run_loop (n + Suc k) rnd cnc (task_config goal s0)
           = Returned (s\<lparr>cancel_checks := cancel_checks s + 1,
                          events := events s @ [Canceled (current_temperature s)],
                          action_server_busy := False\<rparr>)
         \<and> accepted_set_temperature_action_callback (n + Suc k) rnd cnc goal s0
           = Some (Inr (s\<lparr>cancel_checks := cancel_checks s + 1,
                            events := events s @ [Canceled (current_temperature s)],
                            action_server_busy := False\<rparr>))
         \<and> local_current_temperature l = current_temperature s
         \<and> (events s = events s0 \<and> current_temperature s = current_temperature s0
              \<or> (\<exists>p. last (events s) = Feedback (current_temperature s) p))"
proof -
  from task_inv_run [of goal s0 n rnd cnc] active
  have inv: "task_inv goal s0 (AtLoopHead l s)" by simp
  then have cur: "local_current_temperature l = current_temperature s"
    and seen: "events s = events s0 \<and> current_temperature s = current_temperature s0
              \<or> (\<exists>p. last (events s) = Feedback (current_temperature s) p)"
    by (simp_all add: task_inv_def)
  have "run_loop (n + Suc k) rnd cnc (task_config goal s0)
          = run_loop k rnd cnc (loop_iteration rnd cnc (AtLoopHead l s))"
    by (simp only: run_loop_add active run_loop.simps)
  also have "\<dots> = Returned (s\<lparr>cancel_checks := cancel_checks s + 1,
                          events := events s @ [Canceled (current_temperature s)],
                          action_server_busy := False\<rparr>)"
    using ne observed cur by (simp add: loop_body_canceling run_loop_Returned)
  finally have ret: "run_loop (n + Suc k) rnd cnc (task_config goal s0)
           = Returned (s\<lparr>cancel_checks := cancel_checks s + 1,
                          events := events s @ [Canceled (current_temperature s)],
                          action_server_busy := False\<rparr>)" .
  then have "accepted_set_temperature_action_callback (n + Suc k) rnd cnc goal s0
           = Some (Inr (s\<lparr>cancel_checks := cancel_checks s + 1,
                            events := events s @ [Canceled (current_temperature s)],
                            action_server_busy := False\<rparr>))"
    by (simp add: accepted_set_temperature_action_callback_def)
  with ret cur seen show ?thesis by blast
qed

theorem cancellation_witness:
  "accepted_set_temperature_action_callback 2 (\<lambda>_. 1) (\<lambda>k. k = 1) 25
     \<lparr>current_temperature = 20, action_server_busy = True, rand_calls = 1, cancel_checks = 0,
      events = []\<rparr>
   = Some (Inr \<lparr>current_temperature = 21, action_server_busy = False, rand_calls = 3,
                cancel_checks = 2,
                events = [StepRequested True, Slept 101, Feedback 21 20, Canceled 21]\<rparr>)"
proof -
  let ?busy = "\<lparr>current_temperature = 20, action_server_busy = True, rand_calls = 1,
               cancel_checks = 0, events = []\<rparr>"
  let ?l = "\<lparr>target_temperature = 25, initial_temperature = 20,
            local_current_temperature = 21, is_increment = True\<rparr>"
  let ?mid = "\<lparr>current_temperature = 21, action_server_busy = True, rand_calls = 3,
              cancel_checks = 1, events = [StepRequested True, Slept 101, Feedback 21 20]\<rparr>"
  have mid: "run_loop 1 (\<lambda>_. 1) (\<lambda>k. k = 1) (task_config 25 ?busy) = AtLoopHead ?l ?mid"
    by (simp add: task_config_def task_start_def loop_body_def
        increment_decrement_temperature_callback_def progress_def c_div_def)
  have ne: "local_current_temperature ?l \<noteq> target_temperature ?l" by simp
  have observed: "(\<lambda>k::nat. k = 1) (cancel_checks ?mid)" by simp
  from cancellation [where cnc = "\<lambda>k. k = 1" and k = 0, OF mid ne observed]
  show ?thesis by (simp add: numeral_2_eq_2)
qed

lemma approach_steps:
  assumes m: "run_loop m rnd cnc (task_config goal s0) = AtLoopHead lm sm"
  shows "run_loop (m + k) rnd cnc (task_config goal s0) = AtLoopHead ln sn \<Longrightarrow>
         (if sint (current_temperature s0) < sint goal
          then sint (local_current_temperature lm) \<le> sint (local_current_temperature ln)
               \<and> sint (local_current_temperature ln) \<le> sint (local_current_temperature lm) + int k
          else sint (local_current_temperature ln) \<le> sint (local_current_temperature lm)
               \<and> sint (local_current_temperature lm) - int k \<le> sint (local_current_temperature ln))"
proof (induction k arbitrary: ln sn)
  case 0
  with m show ?case by simp
next
  case (Suc k)
  have iter: "loop_iteration rnd cnc (run_loop (m + k) rnd cnc (task_config goal s0))
                = AtLoopHead ln sn"
    using Suc.prems by (simp only: add_Suc_right run_loop_Suc_right)
  then obtain l' s' where before: "run_loop (m + k) rnd cnc (task_config goal s0) = AtLoopHead l' s'"
    by (cases "run_loop (m + k) rnd cnc (task_config goal s0)") auto
  from task_inv_run [of goal s0 "m + k" rnd cnc] before
  have inv: "task_inv goal s0 (AtLoopHead l' s')" by simp
  then have dir: "is_increment l' = (sint (current_temperature s0) < sint goal)"
    by (simp add: task_inv_def)
  from iter before have "loop_iteration rnd cnc (AtLoopHead l' s') = AtLoopHead ln sn" by simp
  from iteration_moves [OF inv this] Suc.IH [OF before] dir
  show ?case by (auto split: if_splits)
qed

text \<open>
  Claim C6. Between a loop head and any later one of the same task the value has not
  decreased when the target is above the initial value, has risen by at most one per
  pass and has not gone past the target; symmetrically when the target is below. A task
  that reports success reports the target.
\<close>

theorem monotone_approach:
  "(run_loop m rnd cnc (task_config goal s0) = AtLoopHead lm sm
    \<and> run_loop (m + k) rnd cnc (task_config goal s0) = AtLoopHead ln sn
    \<longrightarrow> local_current_temperature ln = current_temperature sn
       \<and> (sint (current_temperature s0) < sint goal \<longrightarrow>
            sint (local_current_temperature lm) \<le> sint (local_current_temperature ln)
            \<and> sint (local_current_temperature ln) \<le> sint (local_current_temperature lm) + int k
            \<and> sint (local_current_temperature ln) \<le> sint goal)
       \<and> (sint goal < sint (current_temperature s0) \<longrightarrow>
            sint (local_current_temperature ln) \<le> sint (local_current_temperature lm)
            \<and> sint (local_current_temperature lm) - int k \<le> sint (local_current_temperature ln)
            \<and> sint goal \<le> sint (local_current_temperature ln)))
   \<and> (run_loop m rnd cnc (task_config goal s0) = Returned s'
        \<and> last (events s') = Succeeded v \<longrightarrow> v = goal \<and> current_temperature s' = goal)"
proof (intro conjI impI)
  assume h: "run_loop m rnd cnc (task_config goal s0) = AtLoopHead lm sm
    \<and> run_loop (m + k) rnd cnc (task_config goal s0) = AtLoopHead ln sn"
  from task_inv_run [of goal s0 "m + k" rnd cnc] h
  have inv: "task_inv goal s0 (AtLoopHead ln sn)" by simp
  then show "local_current_temperature ln = current_temperature sn"
    by (simp add: task_inv_def)
  note steps = approach_steps [of m rnd cnc goal s0 lm sm k ln sn]
  {
    assume up: "sint (current_temperature s0) < sint goal"
    from steps h up show "sint (local_current_temperature lm) \<le> sint (local_current_temperature ln)"
      by simp
    from steps h up show "sint (local_current_temperature ln) \<le> sint (local_current_temperature lm) + int k"
      by simp
    from inv up show "sint (local_current_temperature ln) \<le> sint goal"
      by (simp add: task_inv_def)
  }
  {
    assume down: "sint goal < sint (current_temperature s0)"
    from steps h down show "sint (local_current_temperature ln) \<le> sint (local_current_temperature lm)"
      by simp
    from steps h down show "sint (local_current_temperature lm) - int k \<le> sint (local_current_temperature ln)"
      by simp
    from inv down show "sint goal \<le> sint (local_current_temperature ln)"
      by (simp add: task_inv_def)
  }
next
  assume h: "run_loop m rnd cnc (task_config goal s0) = Returned s' \<and> last (events s') = Succeeded v"
  with task_inv_run [of goal s0 m rnd cnc]
  show "v = goal" and "current_temperature s' = goal"
    by (auto simp: task_inv_def)
qed

theorem monotone_approach_witness:
  "run_loop 1 (\<lambda>_. 1) (\<lambda>_. False) (task_config 22
     \<lparr>current_temperature = 20, action_server_busy = True, rand_calls = 1, cancel_checks = 0,
      events = []\<rparr>)
   = AtLoopHead \<lparr>target_temperature = 22, initial_temperature = 20,
                 local_current_temperature = 21, is_increment = True\<rparr>
       \<lparr>current_temperature = 21, action_server_busy = True, rand_calls = 3, cancel_checks = 1,
        events = [StepRequested True, Slept 101, Feedback 21 50]\<rparr>
   \<and> sint (20::short) \<le> sint (21::short) \<and> sint (21::short) \<le> sint (22::short)
   \<and> run_loop 1 (\<lambda>_. 1) (\<lambda>_. False) (task_config 18
     \<lparr>current_temperature = 20, action_server_busy = True, rand_calls = 1, cancel_checks = 0,
      events = []\<rparr>)
   = AtLoopHead \<lparr>target_temperature = 18, initial_temperature = 20,
                 local_current_temperature = 19, is_increment = False\<rparr>
       \<lparr>current_temperature = 19, action_server_busy = True, rand_calls = 3, cancel_checks = 1,
        events = [StepRequested False, Slept 101, Feedback 19 50]\<rparr>
   \<and> sint (19::short) \<le> sint (20::short) \<and> sint (18::short) \<le> sint (19::short)
   \<and> run_loop 2 (\<lambda>_. 1) (\<lambda>_. False) (task_config 21
     \<lparr>current_temperature = 20, action_server_busy = True, rand_calls = 1, cancel_checks = 0,
      events = []\<rparr>)
   = Returned \<lparr>current_temperature = 21, action_server_busy = False, rand_calls = 3,
               cancel_checks = 1,
               events = [StepRequested True, Slept 101, Feedback 21 100, Succeeded 21]\<rparr>"
proof -
  let ?busy = "\<lparr>current_temperature = 20, action_server_busy = True, rand_calls = 1,
               cancel_checks = 0, events = []\<rparr>"
  let ?up0 = "\<lparr>target_temperature = 22, initial_temperature = 20,
              local_current_temperature = 20, is_increment = True\<rparr>"
  let ?up1 = "\<lparr>target_temperature = 22, initial_temperature = 20,
              local_current_temperature = 21, is_increment = True\<rparr>"
  let ?sup = "\<lparr>current_temperature = 21, action_server_busy = True, rand_calls = 3,
              cancel_checks = 1, events = [StepRequested True, Slept 101, Feedback 21 50]\<rparr>"
  let ?dn0 = "\<lparr>target_temperature = 18, initial_temperature = 20,
              local_current_temperature = 20, is_increment = False\<rparr>"
  let ?dn1 = "\<lparr>target_temperature = 18, initial_temperature = 20,
              local_current_temperature = 19, is_increment = False\<rparr>"
  let ?sdn = "\<lparr>current_temperature = 19, action_server_busy = True, rand_calls = 3,
              cancel_checks = 1, events = [StepRequested False, Slept 101, Feedback 19 50]\<rparr>"
  let ?final = "\<lparr>current_temperature = 21, action_server_busy = False, rand_calls = 3,
                cancel_checks = 1,
                events = [StepRequested True, Slept 101, Feedback 21 100, Succeeded 21]\<rparr>"
  have up0: "run_loop 0 (\<lambda>_. 1) (\<lambda>_. False) (task_config 22 ?busy) = AtLoopHead ?up0 ?busy"
    by (simp add: task_config_def task_start_def)
  have up1: "run_loop (0 + 1) (\<lambda>_. 1) (\<lambda>_. False) (task_config 22 ?busy) = AtLoopHead ?up1 ?sup"
    by (simp add: task_config_def task_start_def loop_body_def
        increment_decrement_temperature_callback_def progress_def c_div_def)
  have dn0: "run_loop 0 (\<lambda>_. 1) (\<lambda>_. False) (task_config 18 ?busy) = AtLoopHead ?dn0 ?busy"
    by (simp add: task_config_def task_start_def)
  have dn1: "run_loop (0 + 1) (\<lambda>_. 1) (\<lambda>_. False) (task_config 18 ?busy) = AtLoopHead ?dn1 ?sdn"
    by (simp add: task_config_def task_start_def loop_body_def
        increment_decrement_temperature_callback_def progress_def c_div_def)
  have final: "run_loop 2 (\<lambda>_. 1) (\<lambda>_. False) (task_config 21 ?busy) = Returned ?final"
    by (simp add: numeral_2_eq_2 task_config_def task_start_def loop_body_def after_loop_def
        increment_decrement_temperature_callback_def progress_def c_div_def)
  have last: "last (events ?final) = Succeeded 21" by simp
  have up: "sint (current_temperature ?busy) < sint (22::short)"
    and down: "sint (18::short) < sint (current_temperature ?busy)" by simp_all
  from monotone_approach [where m = 0 and k = 1 and rnd = "\<lambda>_. 1" and cnc = "\<lambda>_. False"
        and goal = 22 and ?s0.0 = ?busy and lm = ?up0 and sm = ?busy and ln = ?up1 and sn = ?sup]
      up0 up1 up
    monotone_approach [where m = 0 and k = 1 and rnd = "\<lambda>_. 1" and cnc = "\<lambda>_. False"
        and goal = 18 and ?s0.0 = ?busy and lm = ?dn0 and sm = ?busy and ln = ?dn1 and sn = ?sdn]
      dn0 dn1 down
    monotone_approach [where m = 2 and rnd = "\<lambda>_. 1" and cnc = "\<lambda>_. False"
        and goal = 21 and ?s0.0 = ?busy and s' = ?final and v = 21]
      final last
  show ?thesis by simp
qed

lemma c_div_same_sign:
  assumes "0 < b \<and> 0 \<le> a \<and> a \<le> 100 * b \<or> b < 0 \<and> a \<le> 0 \<and> 100 * b \<le> a"
  shows "c_div a b = Some (a div b) \<and> 0 \<le> a div b \<and> a div b \<le> 100"
proof -
  have pos: "0 \<le> x div y \<and> x div y \<le> 100" if "0 < y" "0 \<le> x" "x \<le> 100 * y" for x y :: int
  proof -
    from that have "x div y \<le> (100 * y) div y" by (intro zdiv_mono1) simp_all
    with that show ?thesis by (simp add: pos_imp_zdiv_nonneg_iff)
  qed
  from assms show ?thesis
  proof
    assume h: "0 < b \<and> 0 \<le> a \<and> a \<le> 100 * b"
    then have "c_div a b = Some (a div b)" by (simp add: c_div_def)
    with pos [of b a] h show ?thesis by simp
  next
    assume h: "b < 0 \<and> a \<le> 0 \<and> 100 * b \<le> a"
    have flip: "(- a) div (- b) = a div b" by (rule div_minus_minus)
    have "c_div a b = Some ((- a) div (- b))"
    proof (cases "a = 0")
      case True
      with h show ?thesis unfolding c_div_def by simp
    next
      case False
      with h have "a < 0" and "\<bar>a\<bar> = - a" and "\<bar>b\<bar> = - b" and "b \<noteq> 0" by simp_all
      with h show ?thesis unfolding c_div_def by (simp only: if_False if_True simp_thms)
    qed
    moreover from h have "0 < - b" and "0 \<le> - a" and "- a \<le> 100 * (- b)" by simp_all
    from pos [OF this] have "0 \<le> (- a) div (- b) \<and> (- a) div (- b) \<le> 100" .
    ultimately show ?thesis unfolding flip by blast
  qed
qed

text \<open>
  Claim C7. A pass of the loop that calls the step takes the value from the response,
  whether the step was refused (then it is the value as before) or not, computes
  \<open>(value - initial) * 100 / (target - initial)\<close> by C++ integer division, which is
  defined and agrees with \<open>div\<close> here and lies from 0 to 100, and publishes exactly one
  feedback with that value and that progress before it is back at the loop head.
\<close>

theorem progress_reporting:
  assumes active: "run_loop n rnd cnc (task_config goal s0) = AtLoopHead l s"
    and ne: "local_current_temperature l \<noteq> target_temperature l"
    and nc: "\<not> cnc (cancel_checks s)"
    and step: "increment_decrement_temperature_callback rnd (is_increment l)
                 (s\<lparr>cancel_checks := cancel_checks s + 1\<rparr>) = (response, s1)"
  shows "\<exists>p. c_div ((sint (temperature response) - sint (initial_temperature l)) * 100)
                    (sint (target_temperature l) - sint (initial_temperature l)) = Some p
           \<and> p = ((sint (temperature response) - sint (initial_temperature l)) * 100)
                   div (sint (target_temperature l) - sint (initial_temperature l))
           \<and> 0 \<le> p \<and> p \<le> 100
           \<and> run_loop (Suc n) rnd cnc (task_config goal s0)
               = AtLoopHead (l\<lparr>local_current_temperature := temperature response\<rparr>)
                   (s1\<lparr>events := events s1 @ [Feedback (temperature response) p]\<rparr>)
           \<and> feedbacks (new_events s
                 (s1\<lparr>events := events s1 @ [Feedback (temperature response) p]\<rparr>))
               = [(temperature response, p)]
           \<and> initial_temperature l = current_temperature s0
           \<and> target_temperature l = goal
           \<and> temperature response = current_temperature s1
           \<and> (\<not> success response \<longrightarrow> temperature response = local_current_temperature l)"
proof -
  let ?s0 = "s\<lparr>cancel_checks := cancel_checks s + 1\<rparr>"
  let ?t = "temperature response"
  let ?a = "(sint ?t - sint (initial_temperature l)) * 100"
  let ?b = "sint (target_temperature l) - sint (initial_temperature l)"
  from task_inv_run [of goal s0 n rnd cnc] active
  have inv: "task_inv goal s0 (AtLoopHead l s)" by simp
  then have ini: "initial_temperature l = current_temperature s0"
    and tgt: "target_temperature l = goal"
    and cur: "local_current_temperature l = current_temperature s"
    by (simp_all add: task_inv_def)
  have next_head: "run_loop (Suc n) rnd cnc (task_config goal s0) = loop_body rnd cnc l s"
    using active ne by (simp only: run_loop_Suc_right) simp
  note body = loop_body_stepping [where cnc = cnc and s = s, OF nc step]
  from task_inv_run [of goal s0 "Suc n" rnd cnc] next_head
  have inv': "task_inv goal s0 (loop_body rnd cnc l s)" by simp
  then obtain p where p: "progress ?t (initial_temperature l) (target_temperature l) = Some p"
    unfolding body by (cases "progress ?t (initial_temperature l) (target_temperature l)")
      (simp_all add: task_inv_def)
  from inv' have after: "task_inv goal s0
      (AtLoopHead (l\<lparr>local_current_temperature := ?t\<rparr>)
         (s1\<lparr>events := events s1 @ [Feedback ?t p]\<rparr>))"
    unfolding body p by simp
  then have t_s1: "?t = current_temperature s1"
    by (simp add: task_inv_def)
  from task_inv_differ [OF inv ne] have "sint (target_temperature l) \<noteq> sint (initial_temperature l)"
    by (simp add: sint_eq_iff)
  with after ini tgt t_s1
  have signs: "0 < ?b \<and> 0 \<le> ?a \<and> ?a \<le> 100 * ?b \<or> ?b < 0 \<and> ?a \<le> 0 \<and> 100 * ?b \<le> ?a"
    by (auto simp: task_inv_def split: if_splits)
  note quotient = c_div_same_sign [OF signs]
  with p have p_eq: "p = ?a div ?b" by (simp add: progress_def)
  have events_s1: "events s1 = events s @ [StepRequested (is_increment l)]
                   \<or> (\<exists>ms. events s1 = events s @ [StepRequested (is_increment l), Slept ms])"
    and refused: "\<not> success response \<longrightarrow> ?t = local_current_temperature l"
  proof -
    show "events s1 = events s @ [StepRequested (is_increment l)]
                   \<or> (\<exists>ms. events s1 = events s @ [StepRequested (is_increment l), Slept ms])"
    proof (cases "even (rnd (rand_calls s))")
      case True
      with step step_refused [of rnd ?s0 "is_increment l"] show ?thesis by auto
    next
      case False
      with step step_performed [of rnd ?s0 "is_increment l"] show ?thesis by auto
    qed
    show "\<not> success response \<longrightarrow> ?t = local_current_temperature l"
    proof (cases "even (rnd (rand_calls s))")
      case True
      with step step_refused [of rnd ?s0 "is_increment l"] cur show ?thesis by auto
    next
      case False
      with step step_performed [of rnd ?s0 "is_increment l"] show ?thesis by auto
    qed
  qed
  from events_s1 have one: "feedbacks (new_events s (s1\<lparr>events := events s1 @ [Feedback ?t p]\<rparr>))
               = [(?t, p)]"
    by (auto simp: new_events_def)
  from quotient p_eq next_head body p one ini tgt t_s1 refused
  show ?thesis by auto
qed

theorem progress_reporting_witness:
  "run_loop (Suc 0) (\<lambda>_. 1) (\<lambda>_. False) (task_config 22
     \<lparr>current_temperature = 20, action_server_busy = True, rand_calls = 1, cancel_checks = 0,
      events = []\<rparr>)
   = AtLoopHead \<lparr>target_temperature = 22, initial_temperature = 20,
                 local_current_temperature = 21, is_increment = True\<rparr>
       \<lparr>current_temperature = 21, action_server_busy = True, rand_calls = 3, cancel_checks = 1,
        events = [StepRequested True, Slept 101, Feedback 21 50]\<rparr>"
proof -
  let ?busy = "\<lparr>current_temperature = 20, action_server_busy = True, rand_calls = 1,
               cancel_checks = 0, events = []\<rparr>"
  let ?l = "\<lparr>target_temperature = 22, initial_temperature = 20,
            local_current_temperature = 20, is_increment = True\<rparr>"
  let ?response = "\<lparr>success = True, temperature = 21,
                   message = ''Temperature increased successfully''\<rparr>"
  let ?s1 = "\<lparr>current_temperature = 21, action_server_busy = True, rand_calls = 3,
             cancel_checks = 1, events = [StepRequested True, Slept 101]\<rparr>"
  have active: "run_loop 0 (\<lambda>_. 1) (\<lambda>_. False) (task_config 22 ?busy) = AtLoopHead ?l ?busy"
    by (simp add: task_config_def task_start_def)
  have ne: "local_current_temperature ?l \<noteq> target_temperature ?l" by simp
  have nc: "\<not> (\<lambda>_. False) (cancel_checks ?busy)" by simp
  have step: "increment_decrement_temperature_callback (\<lambda>_. 1) (is_increment ?l)
                (?busy\<lparr>cancel_checks := cancel_checks ?busy + 1\<rparr>) = (?response, ?s1)"
    by (simp add: increment_decrement_temperature_callback_def success_message_def)
  from progress_reporting [where cnc = "\<lambda>_. False", OF active ne nc step]
  show ?thesis by simp
qed

end
